theory Spec2Isabelle
  imports Main "HOL-Library.Word"
begin

section \<open>The system-hooks layer of libassuan (src/system.c)\<close>

text \<open>
  Conventions of the embedding.

  \<^item> An Isabelle name cannot start with an underscore: \<open>_assuan_X\<close> is written
    \<open>u_assuan_X\<close>, and the built-in implementation \<open>__assuan_X\<close> is the slot \<open>X\<close> of the
    table \<open>uu_assuan\<close> of the platform.
  \<^item> \<open>size_t\<close> and pointers are \<open>'a word\<close> for an arbitrary width \<open>'a\<close>; \<open>NULL\<close> is \<open>0\<close>.
    \<open>int\<close>, \<open>ssize_t\<close>, \<open>assuan_fd_t\<close> and \<open>assuan_pid_t\<close> are only passed through or
    compared with small constants, so they are \<open>int\<close>.
  \<^item> The machine (memory, \<open>errno\<close>, and the rest of the operating system as an abstract
    \<open>'w\<close>) is what a hook or a built-in implementation may read and change. Beside the
    machine the state holds the sequence of external calls system.c has made, which no
    hook can alter.
  \<^item> The \<open>TRACE\<close> macros (debug.h) are calls of the logging function. What they write to
    the debug log is not modelled; what they read is: their arguments are evaluated,
    so a pointer that an argument dereferences is read. Memory is total, so every
    address but \<open>NULL\<close> can be read; an array (\<open>argv\<close>, \<open>fd_child_list\<close>) is \<open>None\<close> for a
    \<open>NULL\<close> pointer or the list of its elements, and reading through \<open>NULL\<close> or past the
    last element is a fault: the function does not return. \<open>TRACE_SYSRES\<close> and
    \<open>TRACE_SYSERR\<close> evaluate to their argument.
\<close>

subsection \<open>Machine and call log\<close>

record (overloaded) ('a, 'w) machine =
  memory :: "'a word \<Rightarrow> 8 word"
  errno :: int
  os :: 'w

datatype sysop =
  Op_usleep | Op_pipe | Op_close | Op_read | Op_write | Op_sendmsg | Op_recvmsg
  | Op_spawn | Op_waitpid | Op_socketpair | Op_socket | Op_connect

datatype call =
  Pre_Syscall | Post_Syscall
  | Default_Impl sysop | Installed_Hook sysop
  | Malloc_Hook | Realloc_Hook | Free_Hook

record (overloaded) ('a, 'w) sys_state =
  mach :: "('a, 'w) machine"
  calls :: "call list"

text \<open>Calling an external function: the call is logged, the function runs on the machine.\<close>

definition invoke ::
  "call \<Rightarrow> (('a, 'w) machine \<Rightarrow> 'r \<times> ('a, 'w) machine) \<Rightarrow> ('a, 'w) sys_state
    \<Rightarrow> 'r \<times> ('a, 'w) sys_state" where
  "invoke c f s =
     (case f (mach s) of (r, m') \<Rightarrow> (r, \<lparr>mach = m', calls = calls s @ [c]\<rparr>))"

definition invoke_void ::
  "call \<Rightarrow> (('a, 'w) machine \<Rightarrow> ('a, 'w) machine) \<Rightarrow> ('a, 'w) sys_state
    \<Rightarrow> ('a, 'w) sys_state" where
  "invoke_void c f s = \<lparr>mach = f (mach s), calls = calls s @ [c]\<rparr>"

subsection \<open>Hook tables and contexts\<close>

text \<open>\<open>struct assuan_malloc_hooks\<close>.\<close>

record (overloaded) ('a, 'w) assuan_malloc_hooks =
  malloc :: "'a word \<Rightarrow> ('a, 'w) machine \<Rightarrow> 'a word \<times> ('a, 'w) machine"
  realloc :: "'a word \<Rightarrow> 'a word \<Rightarrow> ('a, 'w) machine \<Rightarrow> 'a word \<times> ('a, 'w) machine"
  free :: "'a word \<Rightarrow> ('a, 'w) machine \<Rightarrow> ('a, 'w) machine"

text \<open>
  \<open>struct assuan_system_hooks\<close>. Every slot takes the context pointer first. The record is
  extensible: a table of a later library revision is this record with further fields.
  The slot \<open>write\<close> is named \<open>write_hook\<close> (\<open>write\<close> is an Isabelle keyword).
\<close>

record (overloaded) ('a, 'w) assuan_system_hooks =
  version :: int
  usleep :: "'a word \<Rightarrow> 32 word \<Rightarrow> ('a, 'w) machine \<Rightarrow> ('a, 'w) machine"
  pipe :: "'a word \<Rightarrow> 'a word \<Rightarrow> int \<Rightarrow> ('a, 'w) machine \<Rightarrow> int \<times> ('a, 'w) machine"
  close :: "'a word \<Rightarrow> int \<Rightarrow> ('a, 'w) machine \<Rightarrow> int \<times> ('a, 'w) machine"
  read :: "'a word \<Rightarrow> int \<Rightarrow> 'a word \<Rightarrow> 'a word \<Rightarrow> ('a, 'w) machine
    \<Rightarrow> int \<times> ('a, 'w) machine"
  write_hook :: "'a word \<Rightarrow> int \<Rightarrow> 'a word \<Rightarrow> 'a word \<Rightarrow> ('a, 'w) machine
    \<Rightarrow> int \<times> ('a, 'w) machine"
  sendmsg :: "'a word \<Rightarrow> int \<Rightarrow> 'a word \<Rightarrow> int \<Rightarrow> ('a, 'w) machine
    \<Rightarrow> int \<times> ('a, 'w) machine"
  recvmsg :: "'a word \<Rightarrow> int \<Rightarrow> 'a word \<Rightarrow> int \<Rightarrow> ('a, 'w) machine
    \<Rightarrow> int \<times> ('a, 'w) machine"
  spawn :: "'a word \<Rightarrow> 'a word \<Rightarrow> 'a word \<Rightarrow> 'a word list option \<Rightarrow> int \<Rightarrow> int
    \<Rightarrow> int list option \<Rightarrow> 'a word \<Rightarrow> 'a word \<Rightarrow> 32 word \<Rightarrow> ('a, 'w) machine
    \<Rightarrow> int \<times> ('a, 'w) machine"
  waitpid :: "'a word \<Rightarrow> int \<Rightarrow> int \<Rightarrow> 'a word \<Rightarrow> int \<Rightarrow> ('a, 'w) machine
    \<Rightarrow> int \<times> ('a, 'w) machine"
  socketpair :: "'a word \<Rightarrow> int \<Rightarrow> int \<Rightarrow> int \<Rightarrow> 'a word \<Rightarrow> ('a, 'w) machine
    \<Rightarrow> int \<times> ('a, 'w) machine"
  socket :: "'a word \<Rightarrow> int \<Rightarrow> int \<Rightarrow> int \<Rightarrow> ('a, 'w) machine \<Rightarrow> int \<times> ('a, 'w) machine"
  connect :: "'a word \<Rightarrow> int \<Rightarrow> 'a word \<Rightarrow> 32 word \<Rightarrow> ('a, 'w) machine
    \<Rightarrow> int \<times> ('a, 'w) machine"

text \<open>
  \<open>struct assuan_context_s\<close>, as far as system.c reads it. \<open>assuan_context_t\<close> is a pointer:
  \<open>ctx_addr\<close> is its value (what a hook receives as \<open>ctx\<close>), the other fields are what it
  points to.
\<close>

record (overloaded) ('a, 'w) assuan_context_s =
  ctx_addr :: "'a word"
  malloc_hooks :: "('a, 'w) assuan_malloc_hooks"
  system :: "('a, 'w) assuan_system_hooks"

subsection \<open>Memory specific to a context\<close>

text \<open>
  \<open>ENOMEM\<close> is the constant of the system's errno.h (12 on Linux; no proof depends on
  the number). \<open>gpg_err_set_errno\<close> of libgpg-error assigns \<open>errno\<close>.
\<close>

definition ENOMEM :: int where
  "ENOMEM = 12"

definition gpg_err_set_errno :: "int \<Rightarrow> ('a, 'w) sys_state \<Rightarrow> ('a, 'w) sys_state" where
  "gpg_err_set_errno e s = s\<lparr>mach := (mach s)\<lparr>errno := e\<rparr>\<rparr>"

text \<open>
  \<open>memset (p, c, n)\<close> of libc: the \<open>n\<close> bytes at \<open>p\<close>, \<open>p + 1\<close>, ... become \<open>c\<close>. An address
  \<open>a\<close> is one of them exactly when the word \<open>a - p\<close> is below \<open>n\<close>.
\<close>

definition memset ::
  "'a::len word \<Rightarrow> 8 word \<Rightarrow> 'a word \<Rightarrow> ('a, 'w) sys_state \<Rightarrow> ('a, 'w) sys_state" where
  "memset p c n s =
     s\<lparr>mach := (mach s)\<lparr>memory := (\<lambda>a. if a - p < n then c else memory (mach s) a)\<rparr>\<rparr>"

definition u_assuan_malloc ::
  "('a::len, 'w) assuan_context_s \<Rightarrow> 'a word \<Rightarrow> ('a, 'w) sys_state
    \<Rightarrow> 'a word \<times> ('a, 'w) sys_state" where
  "u_assuan_malloc ctx cnt s = invoke Malloc_Hook (malloc (malloc_hooks ctx) cnt) s"

definition u_assuan_realloc ::
  "('a::len, 'w) assuan_context_s \<Rightarrow> 'a word \<Rightarrow> 'a word \<Rightarrow> ('a, 'w) sys_state
    \<Rightarrow> 'a word \<times> ('a, 'w) sys_state" where
  "u_assuan_realloc ctx ptr cnt s =
     invoke Realloc_Hook (realloc (malloc_hooks ctx) ptr cnt) s"

definition u_assuan_calloc ::
  "('a::len, 'w) assuan_context_s \<Rightarrow> 'a word \<Rightarrow> 'a word \<Rightarrow> ('a, 'w) sys_state
    \<Rightarrow> 'a word \<times> ('a, 'w) sys_state" where
  "u_assuan_calloc ctx cnt elsize s =
     (let nbytes = cnt * elsize in
      if elsize \<noteq> 0 \<and> nbytes div elsize \<noteq> cnt
      then (0, gpg_err_set_errno ENOMEM s)
      else (case invoke Malloc_Hook (malloc (malloc_hooks ctx) nbytes) s of
              (ptr, s') \<Rightarrow> (ptr, if ptr \<noteq> 0 then memset ptr 0 nbytes s' else s')))"

definition u_assuan_free ::
  "('a::len, 'w) assuan_context_s \<Rightarrow> 'a word \<Rightarrow> ('a, 'w) sys_state \<Rightarrow> ('a, 'w) sys_state" where
  "u_assuan_free ctx ptr s =
     (if ptr \<noteq> 0 then invoke_void Free_Hook (free (malloc_hooks ctx) ptr) s else s)"

definition assuan_free ::
  "('a::len, 'w) assuan_context_s \<Rightarrow> 'a word \<Rightarrow> ('a, 'w) sys_state \<Rightarrow> ('a, 'w) sys_state" where
  "assuan_free ctx ptr s = u_assuan_free ctx ptr s"

subsection \<open>The hook table merge\<close>

text \<open>
  \<open>_assuan_system_hooks_copy\<close> works on two pointers, compares \<open>dst\<close> with the address
  of the process-wide table \<open>_assuan_system_hooks\<close>, and writes through \<open>dst\<close> before it
  reads through \<open>src\<close>. The tables therefore live in a store indexed by their address:
  \<open>Default_Table\<close> is \<open>&_assuan_system_hooks\<close>, \<open>Table n\<close> any other table object
  (a context's, the caller's). A \<open>NULL\<close> source is \<open>None\<close>.
\<close>

datatype hooks_ref = Default_Table | Table nat

type_synonym ('a, 'w, 'x) hooks_store =
  "hooks_ref \<Rightarrow> ('a, 'w, 'x) assuan_system_hooks_scheme"

text \<open>
  Modelled from the spec: the macro \<open>ASSUAN_SYSTEM_HOOKS_VERSION\<close> of assuan.h, which is
  not among the sources. The spec calls it the library's current version constant and
  lets the library know the slots up to version 2; the source says the same where it
  calls a table with \<open>src->version > 2\<close> one of a newer version of the library.
\<close>

definition ASSUAN_SYSTEM_HOOKS_VERSION :: int where
  "ASSUAN_SYSTEM_HOOKS_VERSION = 2"

text \<open>
  \<open>memcpy (dst, &_assuan_system_hooks, sizeof ( *dst))\<close>: the bytes of the library's struct,
  that is every field of the record, and nothing behind them.
\<close>

definition memcpy_hooks ::
  "('a::len, 'w, 'x) assuan_system_hooks_scheme \<Rightarrow> ('a, 'w, 'x) assuan_system_hooks_scheme
    \<Rightarrow> ('a, 'w, 'x) assuan_system_hooks_scheme" where
  "memcpy_hooks g d =
     d\<lparr>version := version g, usleep := usleep g, pipe := pipe g, close := close g,
       read := read g, write_hook := write_hook g, sendmsg := sendmsg g,
       recvmsg := recvmsg g, spawn := spawn g, waitpid := waitpid g,
       socketpair := socketpair g, socket := socket g, connect := connect g\<rparr>"

text \<open>
  The statements of \<open>_assuan_system_hooks_copy\<close> after the \<open>NULL\<close> test, one definition
  each, in the order of the source. The assignments \<open>dst->f = src->f\<close> of one block are
  written as one record update: each reads and writes the same field, so also with
  \<open>dst = src\<close> their order does not matter. The last \<open>if\<close> of the source has the empty
  statement as its body.
\<close>

definition reset_defaults ::
  "hooks_ref \<Rightarrow> ('a::len, 'w, 'x) hooks_store \<Rightarrow> ('a, 'w, 'x) hooks_store" where
  "reset_defaults dst h =
     (if dst \<noteq> Default_Table then h(dst := memcpy_hooks (h Default_Table) (h dst)) else h)"

definition set_version ::
  "hooks_ref \<Rightarrow> ('a::len, 'w, 'x) hooks_store \<Rightarrow> ('a, 'w, 'x) hooks_store" where
  "set_version dst h = h(dst := (h dst)\<lparr>version := ASSUAN_SYSTEM_HOOKS_VERSION\<rparr>)"

definition copy_version1 ::
  "hooks_ref \<Rightarrow> hooks_ref \<Rightarrow> ('a::len, 'w, 'x) hooks_store \<Rightarrow> ('a, 'w, 'x) hooks_store" where
  "copy_version1 dst src h =
     (if 1 \<le> version (h src)
      then h(dst := (h dst)
        \<lparr>usleep := usleep (h src), pipe := pipe (h src), close := close (h src),
         read := read (h src), write_hook := write_hook (h src),
         sendmsg := sendmsg (h src), recvmsg := recvmsg (h src),
         spawn := spawn (h src), waitpid := waitpid (h src),
         socketpair := socketpair (h src)\<rparr>)
      else h)"

definition copy_version2 ::
  "hooks_ref \<Rightarrow> hooks_ref \<Rightarrow> ('a::len, 'w, 'x) hooks_store \<Rightarrow> ('a, 'w, 'x) hooks_store" where
  "copy_version2 dst src h =
     (if 2 \<le> version (h src)
      then h(dst := (h dst)\<lparr>socket := socket (h src), connect := connect (h src)\<rparr>)
      else h)"

definition u_assuan_system_hooks_copy ::
  "hooks_ref \<Rightarrow> hooks_ref option \<Rightarrow> ('a::len, 'w, 'x) hooks_store
    \<Rightarrow> ('a, 'w, 'x) hooks_store" where
  "u_assuan_system_hooks_copy dst src h =
     (case src of
        None \<Rightarrow> h
      | Some sp \<Rightarrow>
          copy_version2 dst sp (copy_version1 dst sp (set_version dst (reset_defaults dst h))))"

text \<open>The two groups of slots the merge copies, for stating what a table holds.\<close>

definition v1_slots where
  "v1_slots t = (usleep t, pipe t, close t, read t, write_hook t, sendmsg t, recvmsg t,
     spawn t, waitpid t, socketpair t)"

definition v2_slots where
  "v2_slots t = (socket t, connect t)"

subsection \<open>Dispatch\<close>

text \<open>
  What system.c calls and does not define: the built-in implementations \<open>__assuan_X\<close>
  (system-posix.c) and the two notifications \<open>_assuan_pre_syscall\<close> and
  \<open>_assuan_post_syscall\<close>. They are parameters of the model, acting on the machine:
  \<open>close (uu_assuan P)\<close> is \<open>__assuan_close\<close>, and so on for every slot (the field
  \<open>version\<close> of \<open>uu_assuan P\<close> is not used). \<open>ASSUAN_INVALID_FD\<close> is the platform's
  constant of assuan.h that ends a list of descriptors.
\<close>

record (overloaded) ('a, 'w) platform =
  u_assuan_pre_syscall :: "('a, 'w) machine \<Rightarrow> ('a, 'w) machine"
  u_assuan_post_syscall :: "('a, 'w) machine \<Rightarrow> ('a, 'w) machine"
  uu_assuan :: "('a, 'w) assuan_system_hooks"
  ASSUAN_INVALID_FD :: int

text \<open>
  What a function yields when it reads through \<open>NULL\<close> or past the end of an array.
  Beside the fault the state is kept, with the calls made up to then.
\<close>

datatype fault = Invalid_Read

text \<open>
  The loops \<open>i = 0; while (a[i] != stop) i++;\<close> of \<open>_assuan_spawn\<close> over an array with
  the elements given: the final \<open>i\<close>, or \<open>None\<close> when no element is \<open>stop\<close> and the loop
  reads past the last one.
\<close>

fun scan_until :: "'e \<Rightarrow> 'e list \<Rightarrow> nat \<Rightarrow> nat option" where
  "scan_until stop [] i = None"
| "scan_until stop (x # xs) i = (if x = stop then Some i else scan_until stop xs (i + 1))"

text \<open>\<open>while (argv[i])\<close>, entered when \<open>name\<close> is not \<open>NULL\<close>.\<close>

definition scan_argv :: "'a::len word list option \<Rightarrow> nat option" where
  "scan_argv argv = (case argv of None \<Rightarrow> None | Some a \<Rightarrow> scan_until 0 a 0)"

text \<open>\<open>if (fd_child_list) while (fd_child_list[i] != ASSUAN_INVALID_FD)\<close>.\<close>

definition scan_fd_child_list :: "('a::len, 'w) platform \<Rightarrow> int list option \<Rightarrow> nat option" where
  "scan_fd_child_list P fd_child_list =
     (case fd_child_list of None \<Rightarrow> Some 0 | Some l \<Rightarrow> scan_until (ASSUAN_INVALID_FD P) l 0)"

text \<open>\<open>*argv\<close>, read for the log after the call when \<open>name\<close> is \<open>NULL\<close>.\<close>

definition first_arg :: "'a::len word list option \<Rightarrow> 'a word option" where
  "first_arg argv = (case argv of None \<Rightarrow> None | Some [] \<Rightarrow> None | Some (a # as) \<Rightarrow> Some a)"

definition pre_syscall :: "('a::len, 'w) platform \<Rightarrow> ('a, 'w) sys_state \<Rightarrow> ('a, 'w) sys_state" where
  "pre_syscall P s = invoke_void Pre_Syscall (u_assuan_pre_syscall P) s"

definition post_syscall :: "('a::len, 'w) platform \<Rightarrow> ('a, 'w) sys_state \<Rightarrow> ('a, 'w) sys_state" where
  "post_syscall P s = invoke_void Post_Syscall (u_assuan_post_syscall P) s"

definition u_assuan_usleep ::
  "('a::len, 'w) platform \<Rightarrow> ('a, 'w) assuan_context_s \<Rightarrow> 32 word \<Rightarrow> ('a, 'w) sys_state
    \<Rightarrow> ('a, 'w) sys_state" where
  "u_assuan_usleep P ctx usec s =
     (if version (system ctx) \<noteq> 0
      then invoke_void (Installed_Hook Op_usleep) (usleep (system ctx) (ctx_addr ctx) usec) s
      else
        let s1 = pre_syscall P s;
            s2 = invoke_void (Default_Impl Op_usleep)
                   (usleep (uu_assuan P) (ctx_addr ctx) usec) s1
        in post_syscall P s2)"

text \<open>
  On success \<open>TRACE_SUC2\<close> reads \<open>fd[0]\<close> and \<open>fd[1]\<close> for the log and evaluates to 0, the
  value of \<open>err\<close> on that path.
\<close>

definition u_assuan_pipe ::
  "('a::len, 'w) platform \<Rightarrow> ('a, 'w) assuan_context_s \<Rightarrow> 'a word \<Rightarrow> int
    \<Rightarrow> ('a, 'w) sys_state \<Rightarrow> (fault + int) \<times> ('a, 'w) sys_state" where
  "u_assuan_pipe P ctx fd inherit_idx s =
     (case (if version (system ctx) \<noteq> 0
            then invoke (Installed_Hook Op_pipe)
                   (pipe (system ctx) (ctx_addr ctx) fd inherit_idx) s
            else invoke (Default_Impl Op_pipe)
                   (pipe (uu_assuan P) (ctx_addr ctx) fd inherit_idx) s) of
        (err, s') \<Rightarrow>
          if err \<noteq> 0 then (Inr err, s')
          else if fd = 0 then (Inl Invalid_Read, s')
          else (Inr 0, s'))"

definition u_assuan_close ::
  "('a::len, 'w) platform \<Rightarrow> ('a, 'w) assuan_context_s \<Rightarrow> int
    \<Rightarrow> ('a, 'w) sys_state \<Rightarrow> int \<times> ('a, 'w) sys_state" where
  "u_assuan_close P ctx fd s =
     (if version (system ctx) \<noteq> 0
      then invoke (Installed_Hook Op_close) (close (system ctx) (ctx_addr ctx) fd) s
      else
        let s1 = pre_syscall P s;
            (res, s2) = invoke (Default_Impl Op_close)
                          (close (uu_assuan P) (ctx_addr ctx) fd) s1;
            s3 = post_syscall P s2
        in (res, s3))"

definition u_assuan_close_inheritable ::
  "('a::len, 'w) platform \<Rightarrow> ('a, 'w) assuan_context_s \<Rightarrow> int
    \<Rightarrow> ('a, 'w) sys_state \<Rightarrow> int \<times> ('a, 'w) sys_state" where
  "u_assuan_close_inheritable P ctx fd s =
     (if version (system ctx) \<noteq> 0
      then invoke (Installed_Hook Op_close) (close (system ctx) (ctx_addr ctx) fd) s
      else
        let s1 = pre_syscall P s;
            (res, s2) = invoke (Default_Impl Op_close)
                          (close (uu_assuan P) (ctx_addr ctx) fd) s1;
            s3 = post_syscall P s2
        in (res, s3))"

text \<open>
  \<open>DEBUG_SYSIO\<close> is 0: the \<open>#else\<close> branches are the code. The parameters \<open>size\<close> and
  \<open>length\<close> of the source are \<open>nbyte\<close> and \<open>len\<close> here (both names are HOL constants).
\<close>

definition u_assuan_read ::
  "('a::len, 'w) platform \<Rightarrow> ('a, 'w) assuan_context_s \<Rightarrow> int \<Rightarrow> 'a word \<Rightarrow> 'a word
    \<Rightarrow> ('a, 'w) sys_state \<Rightarrow> int \<times> ('a, 'w) sys_state" where
  "u_assuan_read P ctx fd buffer nbyte s =
     (if version (system ctx) \<noteq> 0
      then invoke (Installed_Hook Op_read)
             (read (system ctx) (ctx_addr ctx) fd buffer nbyte) s
      else
        let s1 = pre_syscall P s;
            (res, s2) = invoke (Default_Impl Op_read)
                          (read (uu_assuan P) (ctx_addr ctx) fd buffer nbyte) s1;
            s3 = post_syscall P s2
        in (res, s3))"

definition u_assuan_write ::
  "('a::len, 'w) platform \<Rightarrow> ('a, 'w) assuan_context_s \<Rightarrow> int \<Rightarrow> 'a word \<Rightarrow> 'a word
    \<Rightarrow> ('a, 'w) sys_state \<Rightarrow> int \<times> ('a, 'w) sys_state" where
  "u_assuan_write P ctx fd buffer nbyte s =
     (if version (system ctx) \<noteq> 0
      then invoke (Installed_Hook Op_write)
             (write_hook (system ctx) (ctx_addr ctx) fd buffer nbyte) s
      else
        let s1 = pre_syscall P s;
            (res, s2) = invoke (Default_Impl Op_write)
                          (write_hook (uu_assuan P) (ctx_addr ctx) fd buffer nbyte) s1;
            s3 = post_syscall P s2
        in (res, s3))"

definition u_assuan_recvmsg ::
  "('a::len, 'w) platform \<Rightarrow> ('a, 'w) assuan_context_s \<Rightarrow> int \<Rightarrow> 'a word \<Rightarrow> int
    \<Rightarrow> ('a, 'w) sys_state \<Rightarrow> int \<times> ('a, 'w) sys_state" where
  "u_assuan_recvmsg P ctx fd msg flags s =
     (if version (system ctx) \<noteq> 0
      then invoke (Installed_Hook Op_recvmsg)
             (recvmsg (system ctx) (ctx_addr ctx) fd msg flags) s
      else
        let s1 = pre_syscall P s;
            (res, s2) = invoke (Default_Impl Op_recvmsg)
                          (recvmsg (uu_assuan P) (ctx_addr ctx) fd msg flags) s1;
            s3 = post_syscall P s2
        in (res, s3))"

definition u_assuan_sendmsg ::
  "('a::len, 'w) platform \<Rightarrow> ('a, 'w) assuan_context_s \<Rightarrow> int \<Rightarrow> 'a word \<Rightarrow> int
    \<Rightarrow> ('a, 'w) sys_state \<Rightarrow> int \<times> ('a, 'w) sys_state" where
  "u_assuan_sendmsg P ctx fd msg flags s =
     (if version (system ctx) \<noteq> 0
      then invoke (Installed_Hook Op_sendmsg)
             (sendmsg (system ctx) (ctx_addr ctx) fd msg flags) s
      else
        let s1 = pre_syscall P s;
            (res, s2) = invoke (Default_Impl Op_sendmsg)
                          (sendmsg (uu_assuan P) (ctx_addr ctx) fd msg flags) s1;
            s3 = post_syscall P s2
        in (res, s3))"

text \<open>
  \<open>_assuan_spawn\<close>: the two loops that log the arguments, the call, and the log of the
  new process, which reads \<open>*r_pid\<close> and, when \<open>name\<close> is \<open>NULL\<close>, \<open>*argv\<close>.
\<close>

definition u_assuan_spawn ::
  "('a::len, 'w) platform \<Rightarrow> ('a, 'w) assuan_context_s \<Rightarrow> 'a word \<Rightarrow> 'a word
    \<Rightarrow> 'a word list option \<Rightarrow> int \<Rightarrow> int \<Rightarrow> int list option \<Rightarrow> 'a word \<Rightarrow> 'a word
    \<Rightarrow> 32 word \<Rightarrow> ('a, 'w) sys_state \<Rightarrow> (fault + int) \<times> ('a, 'w) sys_state" where
  "u_assuan_spawn P ctx r_pid name argv fd_in fd_out fd_child_list atfork atforkvalue flags s =
     (if name \<noteq> 0 \<and> scan_argv argv = None then (Inl Invalid_Read, s)
      else if scan_fd_child_list P fd_child_list = None then (Inl Invalid_Read, s)
      else
        case (if version (system ctx) \<noteq> 0
              then invoke (Installed_Hook Op_spawn)
                     (spawn (system ctx) (ctx_addr ctx) r_pid name argv fd_in fd_out
                        fd_child_list atfork atforkvalue flags) s
              else invoke (Default_Impl Op_spawn)
                     (spawn (uu_assuan P) (ctx_addr ctx) r_pid name argv fd_in fd_out
                        fd_child_list atfork atforkvalue flags) s) of
          (res, s') \<Rightarrow>
            if r_pid = 0 then (Inl Invalid_Read, s')
            else if name = 0 \<and> first_arg argv = None then (Inl Invalid_Read, s')
            else (Inr res, s'))"

definition u_assuan_waitpid ::
  "('a::len, 'w) platform \<Rightarrow> ('a, 'w) assuan_context_s \<Rightarrow> int \<Rightarrow> int \<Rightarrow> 'a word \<Rightarrow> int
    \<Rightarrow> ('a, 'w) sys_state \<Rightarrow> int \<times> ('a, 'w) sys_state" where
  "u_assuan_waitpid P ctx pid action status options s =
     (if version (system ctx) \<noteq> 0
      then invoke (Installed_Hook Op_waitpid)
             (waitpid (system ctx) (ctx_addr ctx) pid action status options) s
      else
        let s1 = pre_syscall P s;
            (res, s2) = invoke (Default_Impl Op_waitpid)
                          (waitpid (uu_assuan P) (ctx_addr ctx) pid action status options) s1;
            s3 = post_syscall P s2
        in (res, s3))"

text \<open>When the result is 0, \<open>filedes[0]\<close> and \<open>filedes[1]\<close> are read for the log.\<close>

definition u_assuan_socketpair ::
  "('a::len, 'w) platform \<Rightarrow> ('a, 'w) assuan_context_s \<Rightarrow> int \<Rightarrow> int \<Rightarrow> int \<Rightarrow> 'a word
    \<Rightarrow> ('a, 'w) sys_state \<Rightarrow> (fault + int) \<times> ('a, 'w) sys_state" where
  "u_assuan_socketpair P ctx namespace style protocol filedes s =
     (case (if version (system ctx) \<noteq> 0
            then invoke (Installed_Hook Op_socketpair)
                   (socketpair (system ctx) (ctx_addr ctx) namespace style protocol filedes) s
            else invoke (Default_Impl Op_socketpair)
                   (socketpair (uu_assuan P) (ctx_addr ctx) namespace style protocol filedes)
                   s) of
        (res, s') \<Rightarrow>
          if res = 0 \<and> filedes = 0 then (Inl Invalid_Read, s') else (Inr res, s'))"

definition u_assuan_socket ::
  "('a::len, 'w) platform \<Rightarrow> ('a, 'w) assuan_context_s \<Rightarrow> int \<Rightarrow> int \<Rightarrow> int
    \<Rightarrow> ('a, 'w) sys_state \<Rightarrow> int \<times> ('a, 'w) sys_state" where
  "u_assuan_socket P ctx namespace style protocol s =
     (if version (system ctx) \<noteq> 0
      then invoke (Installed_Hook Op_socket)
             (socket (system ctx) (ctx_addr ctx) namespace style protocol) s
      else invoke (Default_Impl Op_socket)
             (socket (uu_assuan P) (ctx_addr ctx) namespace style protocol) s)"

definition u_assuan_connect ::
  "('a::len, 'w) platform \<Rightarrow> ('a, 'w) assuan_context_s \<Rightarrow> int \<Rightarrow> 'a word \<Rightarrow> 32 word
    \<Rightarrow> ('a, 'w) sys_state \<Rightarrow> int \<times> ('a, 'w) sys_state" where
  "u_assuan_connect P ctx sock addr len s =
     (if version (system ctx) \<noteq> 0
      then invoke (Installed_Hook Op_connect)
             (connect (system ctx) (ctx_addr ctx) sock addr len) s
      else
        let s1 = pre_syscall P s;
            (res, s2) = invoke (Default_Impl Op_connect)
                          (connect (uu_assuan P) (ctx_addr ctx) sock addr len) s1;
            s3 = post_syscall P s2
        in (res, s3))"

subsection \<open>Concrete inputs\<close>

text \<open>
  A 64-bit machine whose memory holds \<open>0xFF\<close> everywhere; tables whose slots leave the
  machine alone and return a given code; an allocator that always hands out \<open>0x1000\<close>.
\<close>

definition const_hooks :: "int \<Rightarrow> int \<Rightarrow> (64, unit) assuan_system_hooks" where
  "const_hooks v k =
     \<lparr>version = v,
      usleep = (\<lambda>ctx usec m. m),
      pipe = (\<lambda>ctx fd inherit_idx m. (k, m)),
      close = (\<lambda>ctx fd m. (k, m)),
      read = (\<lambda>ctx fd buffer nbyte m. (k, m)),
      write_hook = (\<lambda>ctx fd buffer nbyte m. (k, m)),
      sendmsg = (\<lambda>ctx fd msg flags m. (k, m)),
      recvmsg = (\<lambda>ctx fd msg flags m. (k, m)),
      spawn = (\<lambda>ctx r_pid name argv fd_in fd_out fd_child_list atfork atforkvalue flags m.
                 (k, m)),
      waitpid = (\<lambda>ctx pid action status options m. (k, m)),
      socketpair = (\<lambda>ctx namespace style protocol filedes m. (k, m)),
      socket = (\<lambda>ctx namespace style protocol m. (k, m)),
      connect = (\<lambda>ctx sock addr len m. (k, m))\<rparr>"

definition test_platform :: "(64, unit) platform" where
  "test_platform =
     \<lparr>u_assuan_pre_syscall = (\<lambda>m. m), u_assuan_post_syscall = (\<lambda>m. m),
      uu_assuan = const_hooks 2 0, ASSUAN_INVALID_FD = - 1\<rparr>"

definition test_malloc_hooks :: "(64, unit) assuan_malloc_hooks" where
  "test_malloc_hooks =
     \<lparr>malloc = (\<lambda>n m. (0x1000, m)), realloc = (\<lambda>p n m. (p, m)), free = (\<lambda>p m. m)\<rparr>"

text \<open>An allocator that is out of memory: \<open>NULL\<close>, with \<open>errno\<close> set to \<open>ENOMEM\<close>.\<close>

definition oom_malloc_hooks :: "(64, unit) assuan_malloc_hooks" where
  "oom_malloc_hooks =
     \<lparr>malloc = (\<lambda>n m. (0, m\<lparr>errno := ENOMEM\<rparr>)), realloc = (\<lambda>p n m. (0, m\<lparr>errno := ENOMEM\<rparr>)),
      free = (\<lambda>p m. m)\<rparr>"

definition oom_ctx :: "(64, unit) assuan_context_s" where
  "oom_ctx = \<lparr>ctx_addr = 0x2000, malloc_hooks = oom_malloc_hooks, system = const_hooks 0 7\<rparr>"

text \<open>A context whose table has version \<open>v\<close> and slots returning 7.\<close>

definition test_ctx :: "int \<Rightarrow> (64, unit) assuan_context_s" where
  "test_ctx v =
     \<lparr>ctx_addr = 0x2000, malloc_hooks = test_malloc_hooks, system = const_hooks v 7\<rparr>"

definition test_state :: "(64, unit) sys_state" where
  "test_state = \<lparr>mach = \<lparr>memory = (\<lambda>a. 0xFF), errno = 0, os = ()\<rparr>, calls = []\<rparr>"

text \<open>
  A store of tables: the process-wide table with the library's version, and \<open>Table n\<close>
  with version \<open>n\<close>, slots returning \<open>10 + n\<close>, and \<open>n\<close> standing for whatever a later
  revision keeps behind the known slots.
\<close>

definition test_store :: "(64, unit, nat) hooks_store" where
  "test_store r =
     (case r of
        Default_Table \<Rightarrow> assuan_system_hooks.extend (const_hooks 2 0) 0
      | Table n \<Rightarrow> assuan_system_hooks.extend (const_hooks (int n) (10 + int n)) n)"

text \<open>
  A context as the library builds one: its table is what the merge of the caller's
  \<open>Table 2\<close> leaves in the library's \<open>Table 9\<close>.
\<close>

definition merged_ctx :: "(64, unit) assuan_context_s" where
  "merged_ctx =
     \<lparr>ctx_addr = 0x2000, malloc_hooks = test_malloc_hooks,
      system = assuan_system_hooks.truncate
        (u_assuan_system_hooks_copy (Table 9) (Some (Table 2)) test_store (Table 9))\<rparr>"

section \<open>The overflow test of the zeroing allocation\<close>

text \<open>
  The test \<open>elsize && nbytes / elsize != cnt\<close> fires exactly when the product of the two
  sizes does not fit into \<open>size_t\<close>.
\<close>

lemma mult_overflow_detected:
  fixes cnt elsize :: "'a::len word"
  assumes "2 ^ LENGTH('a) \<le> unat cnt * unat elsize"
  shows "elsize \<noteq> 0 \<and> (cnt * elsize) div elsize \<noteq> cnt"
proof
  show "elsize \<noteq> 0"
  proof
    assume "elsize = 0"
    with assms show False by simp
  qed
  show "(cnt * elsize) div elsize \<noteq> cnt"
  proof
    assume eq: "(cnt * elsize) div elsize = cnt"
    have "unat cnt = unat (cnt * elsize) div unat elsize"
      using eq by (metis unat_div)
    then have "unat cnt * unat elsize \<le> unat (cnt * elsize)"
      by simp
    also have "\<dots> < 2 ^ LENGTH('a)"
      by (rule unsigned_less)
    finally show False using assms by simp
  qed
qed

lemma mult_no_overflow_passes:
  fixes cnt elsize :: "'a::len word"
  assumes "unat cnt * unat elsize < 2 ^ LENGTH('a)"
  shows "\<not> (elsize \<noteq> 0 \<and> (cnt * elsize) div elsize \<noteq> cnt)"
    and "unat (cnt * elsize) = unat cnt * unat elsize"
proof -
  show u: "unat (cnt * elsize) = unat cnt * unat elsize"
    using assms by (simp add: unat_word_ariths)
  show "\<not> (elsize \<noteq> 0 \<and> (cnt * elsize) div elsize \<noteq> cnt)"
  proof
    assume a: "elsize \<noteq> 0 \<and> (cnt * elsize) div elsize \<noteq> cnt"
    then have "unat elsize \<noteq> 0" by (simp add: unat_eq_zero)
    then have "unat (cnt * elsize) div unat elsize = unat cnt"
      using u by simp
    then have "unat ((cnt * elsize) div elsize) = unat cnt"
      by (simp add: unat_div)
    then have "(cnt * elsize) div elsize = cnt"
      by (simp add: word_unat_eq_iff)
    with a show False by simp
  qed
qed

lemma of_nat_less_word:
  fixes n :: "'a::len word"
  assumes "i < unat n"
  shows "(of_nat i :: 'a word) < n"
proof -
  have "i < 2 ^ LENGTH('a)"
    using assms unsigned_less [of n] by (meson less_trans)
  then have "unat (of_nat i :: 'a word) = i"
    by (simp add: unat_of_nat)
  then show ?thesis
    using assms by (simp add: word_less_nat_alt)
qed

text \<open>
  C3 (as the code has it). Whenever \<open>cnt * elsize\<close> exceeds the range of \<open>size_t\<close>,
  \<open>_assuan_calloc\<close> fails with the report of an allocation that found no memory: it
  returns \<open>NULL\<close> with \<open>errno\<close> set to \<open>ENOMEM\<close>. It makes no external call: the log of
  calls is the one it started with, so the allocation hook of the context is not
  invoked, and the memory is untouched.
\<close>

theorem calloc_overflow:
  fixes cnt elsize :: "'a::len word"
  assumes "2 ^ LENGTH('a) \<le> unat cnt * unat elsize"
  shows "fst (u_assuan_calloc ctx cnt elsize s) = 0
    \<and> calls (snd (u_assuan_calloc ctx cnt elsize s)) = calls s
    \<and> errno (mach (snd (u_assuan_calloc ctx cnt elsize s))) = ENOMEM
    \<and> memory (mach (snd (u_assuan_calloc ctx cnt elsize s))) = memory (mach s)
    \<and> os (mach (snd (u_assuan_calloc ctx cnt elsize s))) = os (mach s)"
  using mult_overflow_detected [OF assms]
  by (simp add: u_assuan_calloc_def gpg_err_set_errno_def Let_def)

theorem calloc_overflow_witness:
  "(2::nat) ^ LENGTH(64) \<le> unat (4294967296 :: 64 word) * unat (4294967296 :: 64 word)
   \<and> fst (u_assuan_calloc (test_ctx 0) 4294967296 4294967296 test_state) = 0
   \<and> calls (snd (u_assuan_calloc (test_ctx 0) 4294967296 4294967296 test_state)) = []
   \<and> errno (mach (snd (u_assuan_calloc (test_ctx 0) 4294967296 4294967296 test_state))) = 12"
proof -
  have big: "(2::nat) ^ LENGTH(64) \<le> unat (4294967296 :: 64 word) * unat (4294967296 :: 64 word)"
    by simp
  show ?thesis
    using big calloc_overflow [OF big, of "test_ctx 0" test_state]
    by (simp add: test_state_def ENOMEM_def)
qed

text \<open>
  C3 as stated, with an error of its own kind for the overflow, fails: what the caller
  gets for 4294967296 elements of 4294967296 bytes (\<open>NULL\<close>, \<open>errno = ENOMEM\<close>) is what it
  gets for 4 elements of 4 bytes from an allocator that is out of memory, pointer and
  machine alike. Only the log tells the two apart: the allocator was called in one and
  not in the other.
\<close>

theorem calloc_overflow_reported_as_enomem:
  "(2::nat) ^ LENGTH(64) \<le> unat (4294967296 :: 64 word) * unat (4294967296 :: 64 word)
   \<and> unat (4 :: 64 word) * unat (4 :: 64 word) < 2 ^ LENGTH(64)
   \<and> fst (u_assuan_calloc oom_ctx 4294967296 4294967296 test_state) = 0
   \<and> errno (mach (snd (u_assuan_calloc oom_ctx 4294967296 4294967296 test_state))) = ENOMEM
   \<and> fst (u_assuan_calloc oom_ctx 4 4 test_state)
       = fst (u_assuan_calloc oom_ctx 4294967296 4294967296 test_state)
   \<and> mach (snd (u_assuan_calloc oom_ctx 4 4 test_state))
       = mach (snd (u_assuan_calloc oom_ctx 4294967296 4294967296 test_state))
   \<and> calls (snd (u_assuan_calloc oom_ctx 4 4 test_state)) = [Malloc_Hook]
   \<and> calls (snd (u_assuan_calloc oom_ctx 4294967296 4294967296 test_state)) = []"
  by (simp add: u_assuan_calloc_def Let_def invoke_def gpg_err_set_errno_def oom_ctx_def
      oom_malloc_hooks_def test_state_def)

text \<open>
  C8. When \<open>cnt * elsize\<close> fits into \<open>size_t\<close> and the allocation hook of the context
  returns a pointer \<open>p\<close> other than \<open>NULL\<close>, \<open>_assuan_calloc\<close> returns \<open>p\<close> and every one of
  the \<open>cnt * elsize\<close> bytes from \<open>p\<close> on is zero afterwards.
\<close>

theorem calloc_zero_filled:
  fixes cnt elsize :: "'a::len word"
  assumes fits: "unat cnt * unat elsize < 2 ^ LENGTH('a)"
    and alloc: "malloc (malloc_hooks ctx) (cnt * elsize) (mach s) = (p, m')"
    and ok: "p \<noteq> 0"
  shows "fst (u_assuan_calloc ctx cnt elsize s) = p
    \<and> (\<forall>i < unat cnt * unat elsize.
          memory (mach (snd (u_assuan_calloc ctx cnt elsize s))) (p + of_nat i) = 0)"
proof -
  have res: "u_assuan_calloc ctx cnt elsize s
      = (p, memset p 0 (cnt * elsize) \<lparr>mach = m', calls = calls s @ [Malloc_Hook]\<rparr>)"
    using mult_no_overflow_passes(1) [OF fits] alloc ok
    by (simp add: u_assuan_calloc_def invoke_def Let_def)
  have "memory (mach (memset p 0 (cnt * elsize) t)) (p + of_nat i) = 0"
    if "i < unat cnt * unat elsize" for i and t :: "('a, 'b) sys_state"
  proof -
    have "i < unat (cnt * elsize)"
      using that mult_no_overflow_passes(2) [OF fits] by simp
    then have "(of_nat i :: 'a word) < cnt * elsize"
      by (rule of_nat_less_word)
    then show ?thesis by (simp add: memset_def)
  qed
  with res show ?thesis by simp
qed

theorem calloc_zero_filled_witness:
  "unat (4 :: 64 word) * unat (4 :: 64 word) < 2 ^ LENGTH(64)
   \<and> malloc (malloc_hooks (test_ctx 0)) (4 * 4) (mach test_state) = (0x1000, mach test_state)
   \<and> fst (u_assuan_calloc (test_ctx 0) 4 4 test_state) = 0x1000
   \<and> memory (mach test_state) 0x100F = 0xFF
   \<and> memory (mach (snd (u_assuan_calloc (test_ctx 0) 4 4 test_state))) 0x100F = 0"
proof -
  have fits: "unat (4 :: 64 word) * unat (4 :: 64 word) < 2 ^ LENGTH(64)"
    by simp
  have alloc: "malloc (malloc_hooks (test_ctx 0)) (4 * 4) (mach test_state)
      = (0x1000, mach test_state)"
    by (simp add: test_ctx_def test_malloc_hooks_def)
  have ok: "(0x1000 :: 64 word) \<noteq> 0"
    by simp
  have "15 < unat (4 :: 64 word) * unat (4 :: 64 word)"
    by simp
  with calloc_zero_filled [OF fits alloc ok]
  have "memory (mach (snd (u_assuan_calloc (test_ctx 0) 4 4 test_state)))
      (0x1000 + of_nat 15) = 0"
    by blast
  moreover have "fst (u_assuan_calloc (test_ctx 0) 4 4 test_state) = 0x1000"
    using calloc_zero_filled [OF fits alloc ok] by blast
  ultimately show ?thesis
    using fits alloc by (simp add: test_state_def)
qed

text \<open>
  C9. Releasing \<open>NULL\<close> does nothing, through \<open>_assuan_free\<close> and through \<open>assuan_free\<close>:
  the state, with its log of calls, is the one before, so the release hook of the
  context is not invoked.
\<close>

theorem free_null_noop: "u_assuan_free ctx 0 s = s \<and> assuan_free ctx 0 s = s"
  by (simp add: u_assuan_free_def assuan_free_def)

section \<open>The merge, step by step\<close>

text \<open>
  With \<open>dst = src\<close> the two copying steps assign every slot to itself, so the merge is
  the reset and the version assignment alone. With \<open>dst \<noteq> src\<close> the source table is not
  written, and each step is read off at \<open>dst\<close>.
\<close>

lemma memcpy_hooks_sel:
  "version (memcpy_hooks g d) = version g"
  "v1_slots (memcpy_hooks g d) = v1_slots g"
  "v2_slots (memcpy_hooks g d) = v2_slots g"
  "assuan_system_hooks.more (memcpy_hooks g d) = assuan_system_hooks.more d"
  by (simp_all add: memcpy_hooks_def v1_slots_def v2_slots_def)

lemma copy_version1_self: "copy_version1 dst dst h = h"
  by (simp add: copy_version1_def)

lemma copy_version2_self: "copy_version2 dst dst h = h"
  by (simp add: copy_version2_def)

lemma copy_alias:
  "u_assuan_system_hooks_copy dst (Some dst) h = set_version dst (reset_defaults dst h)"
  by (simp add: u_assuan_system_hooks_copy_def copy_version1_self copy_version2_self)

lemma reset_defaults_other: "r \<noteq> dst \<Longrightarrow> reset_defaults dst h r = h r"
  by (simp add: reset_defaults_def)

lemma set_version_other: "r \<noteq> dst \<Longrightarrow> set_version dst h r = h r"
  by (simp add: set_version_def)

lemma copy_version1_other: "r \<noteq> dst \<Longrightarrow> copy_version1 dst src h r = h r"
  by (simp add: copy_version1_def)

lemma copy_version2_other: "r \<noteq> dst \<Longrightarrow> copy_version2 dst src h r = h r"
  by (simp add: copy_version2_def)

lemma copy_other: "r \<noteq> dst \<Longrightarrow> u_assuan_system_hooks_copy dst src h r = h r"
  by (cases src)
    (simp_all add: u_assuan_system_hooks_copy_def reset_defaults_other set_version_other
      copy_version1_other copy_version2_other)

lemma slots_version_upd:
  "v1_slots (t\<lparr>version := v\<rparr>) = v1_slots t"
  "v2_slots (t\<lparr>version := v\<rparr>) = v2_slots t"
  by (simp_all add: v1_slots_def v2_slots_def)

text \<open>The table the two copying steps start from.\<close>

lemma base_sel:
  "version (set_version dst (reset_defaults dst h) dst) = ASSUAN_SYSTEM_HOOKS_VERSION"
  "v1_slots (set_version dst (reset_defaults dst h) dst)
     = v1_slots (if dst \<noteq> Default_Table then h Default_Table else h dst)"
  "v2_slots (set_version dst (reset_defaults dst h) dst) = v2_slots (h Default_Table)"
  "assuan_system_hooks.more (set_version dst (reset_defaults dst h) dst)
     = assuan_system_hooks.more (h dst)"
  by (simp_all add: set_version_def reset_defaults_def memcpy_hooks_sel slots_version_upd)

lemma copy_version1_sel:
  "version (copy_version1 dst src h dst) = version (h dst)"
  "v1_slots (copy_version1 dst src h dst)
     = (if 1 \<le> version (h src) then v1_slots (h src) else v1_slots (h dst))"
  "v2_slots (copy_version1 dst src h dst) = v2_slots (h dst)"
  "assuan_system_hooks.more (copy_version1 dst src h dst) = assuan_system_hooks.more (h dst)"
  by (simp_all add: copy_version1_def v1_slots_def v2_slots_def)

lemma copy_version2_sel:
  "version (copy_version2 dst src h dst) = version (h dst)"
  "v1_slots (copy_version2 dst src h dst) = v1_slots (h dst)"
  "v2_slots (copy_version2 dst src h dst)
     = (if 2 \<le> version (h src) then v2_slots (h src) else v2_slots (h dst))"
  "assuan_system_hooks.more (copy_version2 dst src h dst) = assuan_system_hooks.more (h dst)"
  by (simp_all add: copy_version2_def v1_slots_def v2_slots_def)

lemma copy_dst_version:
  "version (u_assuan_system_hooks_copy dst (Some src) h dst) = ASSUAN_SYSTEM_HOOKS_VERSION"
  by (simp add: u_assuan_system_hooks_copy_def copy_version2_sel(1) copy_version1_sel(1)
      base_sel(1))

lemma copy_dst_more:
  "assuan_system_hooks.more (u_assuan_system_hooks_copy dst (Some src) h dst)
     = assuan_system_hooks.more (h dst)"
  by (simp add: u_assuan_system_hooks_copy_def copy_version2_sel(4) copy_version1_sel(4)
      base_sel(4))

lemma copy_dst_v1_distinct:
  assumes "src \<noteq> dst"
  shows "v1_slots (u_assuan_system_hooks_copy dst (Some src) h dst)
     = (if 1 \<le> version (h src) then v1_slots (h src)
        else v1_slots (if dst \<noteq> Default_Table then h Default_Table else h dst))"
  using assms
  by (simp add: u_assuan_system_hooks_copy_def copy_version2_sel(2) copy_version1_sel(2)
      base_sel(2) set_version_other reset_defaults_other)

lemma copy_dst_v2_distinct:
  assumes "src \<noteq> dst"
  shows "v2_slots (u_assuan_system_hooks_copy dst (Some src) h dst)
     = (if 2 \<le> version (h src) then v2_slots (h src) else v2_slots (h Default_Table))"
  using assms
  by (simp add: u_assuan_system_hooks_copy_def copy_version2_sel(3) copy_version1_sel(3)
      base_sel(3) set_version_other reset_defaults_other copy_version1_other)

lemma copy_dst_v2_alias:
  "v2_slots (u_assuan_system_hooks_copy dst (Some dst) h dst) = v2_slots (h Default_Table)"
  by (simp add: copy_alias base_sel(3))


lemma slots_more_upd:
  "version (t\<lparr>assuan_system_hooks.more := x\<rparr>) = version t"
  "v1_slots (t\<lparr>assuan_system_hooks.more := x\<rparr>) = v1_slots t"
  "v2_slots (t\<lparr>assuan_system_hooks.more := x\<rparr>) = v2_slots t"
  by (simp_all add: v1_slots_def v2_slots_def)

lemma copy_dst_v1_alias:
  "v1_slots (u_assuan_system_hooks_copy dst (Some dst) h dst)
     = v1_slots (if dst \<noteq> Default_Table then h Default_Table else h dst)"
  by (simp only: copy_alias base_sel(2))

lemma test_store_sel:
  "version (test_store (Table n)) = int n"
  "assuan_system_hooks.more (test_store (Table n)) = n"
  by (simp_all add: test_store_def assuan_system_hooks.extend_def const_hooks_def)

text \<open>
  C7. A merge with a \<open>NULL\<close> source returns the store it was given: the destination, like
  every other table, is unchanged, whatever it held.
\<close>

theorem hooks_copy_null_src: "u_assuan_system_hooks_copy dst None h = h"
  by (simp add: u_assuan_system_hooks_copy_def)

text \<open>
  C5. After a merge with a source other than \<open>NULL\<close> the destination's version is
  \<open>ASSUAN_SYSTEM_HOOKS_VERSION\<close>, whatever version the source declares (0 included), and
  so it is not 0.
\<close>

theorem hooks_copy_version:
  "version (u_assuan_system_hooks_copy dst (Some src) h dst) = ASSUAN_SYSTEM_HOOKS_VERSION
   \<and> version (u_assuan_system_hooks_copy dst (Some src) h dst) \<noteq> 0"
  by (simp add: copy_dst_version ASSUAN_SYSTEM_HOOKS_VERSION_def)

text \<open>
  C2. After a merge with a source other than \<open>NULL\<close>: if the source declared version 1,
  the ten slots \<open>usleep\<close> ... \<open>socketpair\<close> of the destination are those of the source,
  and its \<open>socket\<close> and \<open>connect\<close> are those of the process-wide table; if the source
  declared version 2 or more, \<open>socket\<close> and \<open>connect\<close> are those of the source as well.
  The version is the one the source declared when the merge was called; the slots are
  compared in the store the merge returns, where the source is the table the caller
  passed whenever it is not the destination itself (third conjunct).
\<close>

theorem hooks_copy_slots:
  "(version (h src) = 1 \<longrightarrow>
      v1_slots (u_assuan_system_hooks_copy dst (Some src) h dst)
        = v1_slots (u_assuan_system_hooks_copy dst (Some src) h src)
      \<and> v2_slots (u_assuan_system_hooks_copy dst (Some src) h dst)
        = v2_slots (h Default_Table))
   \<and> (2 \<le> version (h src) \<longrightarrow>
      v1_slots (u_assuan_system_hooks_copy dst (Some src) h dst)
        = v1_slots (u_assuan_system_hooks_copy dst (Some src) h src)
      \<and> v2_slots (u_assuan_system_hooks_copy dst (Some src) h dst)
        = v2_slots (u_assuan_system_hooks_copy dst (Some src) h src))
   \<and> (src \<noteq> dst \<longrightarrow> u_assuan_system_hooks_copy dst (Some src) h src = h src)"
proof (cases "src = dst")
  case True
  then show ?thesis by (simp add: copy_dst_v2_alias)
next
  case False
  then have "u_assuan_system_hooks_copy dst (Some src) h src = h src"
    by (rule copy_other)
  then show ?thesis
    using False by (simp add: copy_dst_v1_distinct copy_dst_v2_distinct)
qed

theorem hooks_copy_slots_witness:
  "version (test_store (Table 1)) = 1
   \<and> v1_slots (u_assuan_system_hooks_copy (Table 9) (Some (Table 1)) test_store (Table 9))
       = v1_slots (test_store (Table 1))
   \<and> v2_slots (u_assuan_system_hooks_copy (Table 9) (Some (Table 1)) test_store (Table 9))
       = v2_slots (test_store Default_Table)
   \<and> 2 \<le> version (test_store (Table 2))
   \<and> v1_slots (u_assuan_system_hooks_copy (Table 9) (Some (Table 2)) test_store (Table 9))
       = v1_slots (test_store (Table 2))
   \<and> v2_slots (u_assuan_system_hooks_copy (Table 9) (Some (Table 2)) test_store (Table 9))
       = v2_slots (test_store (Table 2))"
  using hooks_copy_slots [of test_store "Table 1" "Table 9"]
    hooks_copy_slots [of test_store "Table 2" "Table 9"]
  by (simp add: test_store_sel)

text \<open>
  C6. A source that declares a version above 2 is merged like any other. The merge is a
  total function with no error result; the destination gets the library's version and
  the twelve known slots of the source; what lies behind the known slots of the
  destination is unchanged; no other table is written; and whatever lies behind the
  known slots of the source (\<open>x\<close> below) has no influence on the destination.
\<close>

theorem hooks_copy_newer_src:
  assumes newer: "2 < version (h src)"
  shows "version (u_assuan_system_hooks_copy dst (Some src) h dst) = ASSUAN_SYSTEM_HOOKS_VERSION
    \<and> v1_slots (u_assuan_system_hooks_copy dst (Some src) h dst)
        = v1_slots (u_assuan_system_hooks_copy dst (Some src) h src)
    \<and> v2_slots (u_assuan_system_hooks_copy dst (Some src) h dst)
        = v2_slots (u_assuan_system_hooks_copy dst (Some src) h src)
    \<and> assuan_system_hooks.more (u_assuan_system_hooks_copy dst (Some src) h dst)
        = assuan_system_hooks.more (h dst)
    \<and> (\<forall>r. r \<noteq> dst \<longrightarrow> u_assuan_system_hooks_copy dst (Some src) h r = h r)
    \<and> (\<forall>x.
          version (u_assuan_system_hooks_copy dst (Some src)
              (h(src := (h src)\<lparr>assuan_system_hooks.more := x\<rparr>)) dst)
            = version (u_assuan_system_hooks_copy dst (Some src) h dst)
          \<and> v1_slots (u_assuan_system_hooks_copy dst (Some src)
              (h(src := (h src)\<lparr>assuan_system_hooks.more := x\<rparr>)) dst)
            = v1_slots (u_assuan_system_hooks_copy dst (Some src) h dst)
          \<and> v2_slots (u_assuan_system_hooks_copy dst (Some src)
              (h(src := (h src)\<lparr>assuan_system_hooks.more := x\<rparr>)) dst)
            = v2_slots (u_assuan_system_hooks_copy dst (Some src) h dst))"
proof (cases "src = dst")
  case True
  show ?thesis
    unfolding True
    by (simp add: copy_dst_version copy_dst_more copy_other copy_dst_v1_alias
        copy_dst_v2_alias slots_more_upd)
next
  case False
  then have same: "u_assuan_system_hooks_copy dst (Some src) h src = h src"
    by (rule copy_other)
  show ?thesis
    using False newer
    by (simp add: same copy_dst_version copy_dst_more copy_other copy_dst_v1_distinct
        copy_dst_v2_distinct slots_more_upd)
qed

theorem hooks_copy_newer_src_witness:
  "2 < version (test_store (Table 3))
   \<and> version (u_assuan_system_hooks_copy (Table 9) (Some (Table 3)) test_store (Table 9)) = 2
   \<and> v1_slots (u_assuan_system_hooks_copy (Table 9) (Some (Table 3)) test_store (Table 9))
       = v1_slots (test_store (Table 3))
   \<and> v2_slots (u_assuan_system_hooks_copy (Table 9) (Some (Table 3)) test_store (Table 9))
       = v2_slots (test_store (Table 3))
   \<and> assuan_system_hooks.more
        (u_assuan_system_hooks_copy (Table 9) (Some (Table 3)) test_store (Table 9)) = 9
   \<and> assuan_system_hooks.more (test_store (Table 3)) = 3"
proof -
  have newer: "2 < version (test_store (Table 3))"
    by (simp add: test_store_sel)
  have "Table 3 \<noteq> Table 9"
    by simp
  with hooks_copy_newer_src [of test_store "Table 3" "Table 9"] newer show ?thesis
    by (simp add: test_store_sel ASSUAN_SYSTEM_HOOKS_VERSION_def)
qed

section \<open>Dispatch\<close>

text \<open>
  A call through \<open>invoke\<close>, and the bracket of the two notifications around the built-in
  implementation, written out on the machine and the log.
\<close>

lemma invoke_eq:
  "invoke c f s = (fst (f (mach s)), \<lparr>mach = snd (f (mach s)), calls = calls s @ [c]\<rparr>)"
  by (simp add: invoke_def split: prod.split)

lemma bracket_eq:
  "(let s1 = pre_syscall P s; (res, s2) = invoke (Default_Impl op) f s1;
        s3 = post_syscall P s2 in (res, s3))
   = (case f (u_assuan_pre_syscall P (mach s)) of
        (r, m) \<Rightarrow> (r, \<lparr>mach = u_assuan_post_syscall P m,
                        calls = calls s @ [Pre_Syscall, Default_Impl op, Post_Syscall]\<rparr>))"
  by (simp add: pre_syscall_def post_syscall_def invoke_def invoke_void_def Let_def
      split: prod.split)

lemma test_ctx_sel:
  "version (system (test_ctx v)) = v"
  "ctx_addr (test_ctx v) = 0x2000"
  by (simp_all add: test_ctx_def const_hooks_def)

text \<open>
  C1 (as the code has it). On a context whose table has version 0, \<open>usleep\<close>, \<open>close\<close>
  (also for the inheritable end), \<open>read\<close>, \<open>write\<close>, \<open>recvmsg\<close>, \<open>sendmsg\<close>, \<open>waitpid\<close>
  and \<open>connect\<close> run the pre-syscall notification, then the built-in implementation
  \<open>__assuan_X\<close> with the arguments of the call on the machine the notification left, then
  the post-syscall notification on the machine the implementation left, and return
  what the implementation returned, whatever that is; these three are the only
  external calls. \<open>pipe\<close>, \<open>spawn\<close>, \<open>socketpair\<close> and \<open>socket\<close> run the built-in
  implementation on the machine as it is and nothing else: this layer sends no
  notification there. (\<open>spawn\<close> does so once the loops over its arguments have read
  them; it, \<open>pipe\<close> and \<open>socketpair\<close> read through their pointers for the log after the
  call.)
\<close>

theorem default_calls_bracketing:
  assumes v0: "version (system ctx) = 0"
  shows "u_assuan_usleep P ctx usec s
      = \<lparr>mach = u_assuan_post_syscall P
                  (usleep (uu_assuan P) (ctx_addr ctx) usec (u_assuan_pre_syscall P (mach s))),
         calls = calls s @ [Pre_Syscall, Default_Impl Op_usleep, Post_Syscall]\<rparr>
    \<and> u_assuan_close P ctx fd s
      = (case close (uu_assuan P) (ctx_addr ctx) fd (u_assuan_pre_syscall P (mach s)) of
           (r, m) \<Rightarrow> (r, \<lparr>mach = u_assuan_post_syscall P m,
             calls = calls s @ [Pre_Syscall, Default_Impl Op_close, Post_Syscall]\<rparr>))
    \<and> u_assuan_close_inheritable P ctx fd s
      = (case close (uu_assuan P) (ctx_addr ctx) fd (u_assuan_pre_syscall P (mach s)) of
           (r, m) \<Rightarrow> (r, \<lparr>mach = u_assuan_post_syscall P m,
             calls = calls s @ [Pre_Syscall, Default_Impl Op_close, Post_Syscall]\<rparr>))
    \<and> u_assuan_read P ctx fd buffer nbyte s
      = (case read (uu_assuan P) (ctx_addr ctx) fd buffer nbyte
                (u_assuan_pre_syscall P (mach s)) of
           (r, m) \<Rightarrow> (r, \<lparr>mach = u_assuan_post_syscall P m,
             calls = calls s @ [Pre_Syscall, Default_Impl Op_read, Post_Syscall]\<rparr>))
    \<and> u_assuan_write P ctx fd buffer nbyte s
      = (case write_hook (uu_assuan P) (ctx_addr ctx) fd buffer nbyte
                (u_assuan_pre_syscall P (mach s)) of
           (r, m) \<Rightarrow> (r, \<lparr>mach = u_assuan_post_syscall P m,
             calls = calls s @ [Pre_Syscall, Default_Impl Op_write, Post_Syscall]\<rparr>))
    \<and> u_assuan_recvmsg P ctx fd msg flags s
      = (case recvmsg (uu_assuan P) (ctx_addr ctx) fd msg flags
                (u_assuan_pre_syscall P (mach s)) of
           (r, m) \<Rightarrow> (r, \<lparr>mach = u_assuan_post_syscall P m,
             calls = calls s @ [Pre_Syscall, Default_Impl Op_recvmsg, Post_Syscall]\<rparr>))
    \<and> u_assuan_sendmsg P ctx fd msg flags s
      = (case sendmsg (uu_assuan P) (ctx_addr ctx) fd msg flags
                (u_assuan_pre_syscall P (mach s)) of
           (r, m) \<Rightarrow> (r, \<lparr>mach = u_assuan_post_syscall P m,
             calls = calls s @ [Pre_Syscall, Default_Impl Op_sendmsg, Post_Syscall]\<rparr>))
    \<and> u_assuan_waitpid P ctx pid action status options s
      = (case waitpid (uu_assuan P) (ctx_addr ctx) pid action status options
                (u_assuan_pre_syscall P (mach s)) of
           (r, m) \<Rightarrow> (r, \<lparr>mach = u_assuan_post_syscall P m,
             calls = calls s @ [Pre_Syscall, Default_Impl Op_waitpid, Post_Syscall]\<rparr>))
    \<and> u_assuan_connect P ctx sock addr len s
      = (case connect (uu_assuan P) (ctx_addr ctx) sock addr len
                (u_assuan_pre_syscall P (mach s)) of
           (r, m) \<Rightarrow> (r, \<lparr>mach = u_assuan_post_syscall P m,
             calls = calls s @ [Pre_Syscall, Default_Impl Op_connect, Post_Syscall]\<rparr>))
    \<and> u_assuan_pipe P ctx fds inherit_idx s
      = (case pipe (uu_assuan P) (ctx_addr ctx) fds inherit_idx (mach s) of
           (err, m) \<Rightarrow> (if err = 0 \<and> fds = 0 then Inl Invalid_Read else Inr err,
             \<lparr>mach = m, calls = calls s @ [Default_Impl Op_pipe]\<rparr>))
    \<and> u_assuan_spawn P ctx r_pid name argv fd_in fd_out fd_child_list atfork atforkvalue
          spawn_flags s
      = (if (name \<noteq> 0 \<and> scan_argv argv = None) \<or> scan_fd_child_list P fd_child_list = None
         then (Inl Invalid_Read, s)
         else case spawn (uu_assuan P) (ctx_addr ctx) r_pid name argv fd_in fd_out
                     fd_child_list atfork atforkvalue spawn_flags (mach s) of
           (res, m) \<Rightarrow> (if r_pid = 0 \<or> (name = 0 \<and> first_arg argv = None)
                         then Inl Invalid_Read else Inr res,
             \<lparr>mach = m, calls = calls s @ [Default_Impl Op_spawn]\<rparr>))
    \<and> u_assuan_socketpair P ctx namespace style protocol filedes s
      = (case socketpair (uu_assuan P) (ctx_addr ctx) namespace style protocol filedes
                (mach s) of
           (res, m) \<Rightarrow> (if res = 0 \<and> filedes = 0 then Inl Invalid_Read else Inr res,
             \<lparr>mach = m, calls = calls s @ [Default_Impl Op_socketpair]\<rparr>))
    \<and> u_assuan_socket P ctx namespace style protocol s
      = (case socket (uu_assuan P) (ctx_addr ctx) namespace style protocol (mach s) of
           (res, m) \<Rightarrow> (res, \<lparr>mach = m, calls = calls s @ [Default_Impl Op_socket]\<rparr>))"
proof (intro conjI)
  show "u_assuan_usleep P ctx usec s
      = \<lparr>mach = u_assuan_post_syscall P
                  (usleep (uu_assuan P) (ctx_addr ctx) usec (u_assuan_pre_syscall P (mach s))),
         calls = calls s @ [Pre_Syscall, Default_Impl Op_usleep, Post_Syscall]\<rparr>"
    using v0
    by (simp add: u_assuan_usleep_def Let_def pre_syscall_def post_syscall_def
        invoke_void_def)
  show "u_assuan_close P ctx fd s
      = (case close (uu_assuan P) (ctx_addr ctx) fd (u_assuan_pre_syscall P (mach s)) of
           (r, m) \<Rightarrow> (r, \<lparr>mach = u_assuan_post_syscall P m,
             calls = calls s @ [Pre_Syscall, Default_Impl Op_close, Post_Syscall]\<rparr>))"
    using v0 by (simp only: u_assuan_close_def bracket_eq simp_thms if_False)
  show "u_assuan_close_inheritable P ctx fd s
      = (case close (uu_assuan P) (ctx_addr ctx) fd (u_assuan_pre_syscall P (mach s)) of
           (r, m) \<Rightarrow> (r, \<lparr>mach = u_assuan_post_syscall P m,
             calls = calls s @ [Pre_Syscall, Default_Impl Op_close, Post_Syscall]\<rparr>))"
    using v0 by (simp only: u_assuan_close_inheritable_def bracket_eq simp_thms if_False)
  show "u_assuan_read P ctx fd buffer nbyte s
      = (case read (uu_assuan P) (ctx_addr ctx) fd buffer nbyte
                (u_assuan_pre_syscall P (mach s)) of
           (r, m) \<Rightarrow> (r, \<lparr>mach = u_assuan_post_syscall P m,
             calls = calls s @ [Pre_Syscall, Default_Impl Op_read, Post_Syscall]\<rparr>))"
    using v0 by (simp only: u_assuan_read_def bracket_eq simp_thms if_False)
  show "u_assuan_write P ctx fd buffer nbyte s
      = (case write_hook (uu_assuan P) (ctx_addr ctx) fd buffer nbyte
                (u_assuan_pre_syscall P (mach s)) of
           (r, m) \<Rightarrow> (r, \<lparr>mach = u_assuan_post_syscall P m,
             calls = calls s @ [Pre_Syscall, Default_Impl Op_write, Post_Syscall]\<rparr>))"
    using v0 by (simp only: u_assuan_write_def bracket_eq simp_thms if_False)
  show "u_assuan_recvmsg P ctx fd msg flags s
      = (case recvmsg (uu_assuan P) (ctx_addr ctx) fd msg flags
                (u_assuan_pre_syscall P (mach s)) of
           (r, m) \<Rightarrow> (r, \<lparr>mach = u_assuan_post_syscall P m,
             calls = calls s @ [Pre_Syscall, Default_Impl Op_recvmsg, Post_Syscall]\<rparr>))"
    using v0 by (simp only: u_assuan_recvmsg_def bracket_eq simp_thms if_False)
  show "u_assuan_sendmsg P ctx fd msg flags s
      = (case sendmsg (uu_assuan P) (ctx_addr ctx) fd msg flags
                (u_assuan_pre_syscall P (mach s)) of
           (r, m) \<Rightarrow> (r, \<lparr>mach = u_assuan_post_syscall P m,
             calls = calls s @ [Pre_Syscall, Default_Impl Op_sendmsg, Post_Syscall]\<rparr>))"
    using v0 by (simp only: u_assuan_sendmsg_def bracket_eq simp_thms if_False)
  show "u_assuan_waitpid P ctx pid action status options s
      = (case waitpid (uu_assuan P) (ctx_addr ctx) pid action status options
                (u_assuan_pre_syscall P (mach s)) of
           (r, m) \<Rightarrow> (r, \<lparr>mach = u_assuan_post_syscall P m,
             calls = calls s @ [Pre_Syscall, Default_Impl Op_waitpid, Post_Syscall]\<rparr>))"
    using v0 by (simp only: u_assuan_waitpid_def bracket_eq simp_thms if_False)
  show "u_assuan_connect P ctx sock addr len s
      = (case connect (uu_assuan P) (ctx_addr ctx) sock addr len
                (u_assuan_pre_syscall P (mach s)) of
           (r, m) \<Rightarrow> (r, \<lparr>mach = u_assuan_post_syscall P m,
             calls = calls s @ [Pre_Syscall, Default_Impl Op_connect, Post_Syscall]\<rparr>))"
    using v0 by (simp only: u_assuan_connect_def bracket_eq simp_thms if_False)
  show "u_assuan_pipe P ctx fds inherit_idx s
      = (case pipe (uu_assuan P) (ctx_addr ctx) fds inherit_idx (mach s) of
           (err, m) \<Rightarrow> (if err = 0 \<and> fds = 0 then Inl Invalid_Read else Inr err,
             \<lparr>mach = m, calls = calls s @ [Default_Impl Op_pipe]\<rparr>))"
    using v0 by (simp add: u_assuan_pipe_def invoke_def split: prod.split)
  show "u_assuan_spawn P ctx r_pid name argv fd_in fd_out fd_child_list atfork atforkvalue
          spawn_flags s
      = (if (name \<noteq> 0 \<and> scan_argv argv = None) \<or> scan_fd_child_list P fd_child_list = None
         then (Inl Invalid_Read, s)
         else case spawn (uu_assuan P) (ctx_addr ctx) r_pid name argv fd_in fd_out
                     fd_child_list atfork atforkvalue spawn_flags (mach s) of
           (res, m) \<Rightarrow> (if r_pid = 0 \<or> (name = 0 \<and> first_arg argv = None)
                         then Inl Invalid_Read else Inr res,
             \<lparr>mach = m, calls = calls s @ [Default_Impl Op_spawn]\<rparr>))"
    using v0 by (auto simp add: u_assuan_spawn_def invoke_def split: prod.split)
  show "u_assuan_socketpair P ctx namespace style protocol filedes s
      = (case socketpair (uu_assuan P) (ctx_addr ctx) namespace style protocol filedes
                (mach s) of
           (res, m) \<Rightarrow> (if res = 0 \<and> filedes = 0 then Inl Invalid_Read else Inr res,
             \<lparr>mach = m, calls = calls s @ [Default_Impl Op_socketpair]\<rparr>))"
    using v0 by (simp add: u_assuan_socketpair_def invoke_def split: prod.split)
  show "u_assuan_socket P ctx namespace style protocol s
      = (case socket (uu_assuan P) (ctx_addr ctx) namespace style protocol (mach s) of
           (res, m) \<Rightarrow> (res, \<lparr>mach = m, calls = calls s @ [Default_Impl Op_socket]\<rparr>))"
    using v0 by (simp add: u_assuan_socket_def invoke_def)
qed

theorem default_calls_bracketing_witness:
  "version (system (test_ctx 0)) = 0
   \<and> u_assuan_usleep test_platform (test_ctx 0) 10 test_state
       = test_state\<lparr>calls := [Pre_Syscall, Default_Impl Op_usleep, Post_Syscall]\<rparr>
   \<and> u_assuan_read test_platform (test_ctx 0) 3 0x3000 16 test_state
       = (0, test_state\<lparr>calls := [Pre_Syscall, Default_Impl Op_read, Post_Syscall]\<rparr>)
   \<and> u_assuan_waitpid test_platform (test_ctx 0) 42 0 0x3000 0 test_state
       = (0, test_state\<lparr>calls := [Pre_Syscall, Default_Impl Op_waitpid, Post_Syscall]\<rparr>)
   \<and> u_assuan_socket test_platform (test_ctx 0) 1 1 0 test_state
       = (0, test_state\<lparr>calls := [Default_Impl Op_socket]\<rparr>)
   \<and> u_assuan_spawn test_platform (test_ctx 0) 0x6000 0x4000 (Some [0x5000, 0]) 0 1
         (Some [5, - 1]) 0 0 0 test_state
       = (Inr 0, test_state\<lparr>calls := [Default_Impl Op_spawn]\<rparr>)
   \<and> u_assuan_spawn test_platform (test_ctx 0) 0x6000 0x4000 None 0 1
         (Some [5, - 1]) 0 0 0 test_state
       = (Inl Invalid_Read, test_state)"
proof -
  have v0: "version (system (test_ctx 0)) = 0"
    by (simp add: test_ctx_sel)
  show ?thesis
    using v0
      default_calls_bracketing [OF v0, of test_platform 10 test_state 3 "0x3000" 16 _ _
        42 0 "0x3000" 0 _ _ _ _ _ "0x6000" "0x4000" "Some [0x5000, 0]" 0 1 "Some [5, - 1]" 0 0 0
        1 1 0]
      default_calls_bracketing [OF v0, of test_platform _ test_state _ _ _ _ _
        _ _ _ _ _ _ _ _ _ "0x6000" "0x4000" None 0 1 "Some [5, - 1]" 0 0 0]
    by (simp add: test_ctx_def const_hooks_def test_platform_def test_state_def
        scan_argv_def scan_fd_child_list_def first_arg_def)
qed

text \<open>
  C1 as stated fails at \<open>pipe\<close>: on a context of version 0 the only call is the one to
  the built-in implementation, with no notification before or after it.
\<close>

theorem pipe_default_not_bracketed:
  "version (system (test_ctx 0)) = 0
   \<and> calls (snd (u_assuan_pipe test_platform (test_ctx 0) 0x3000 1 test_state))
       = [Default_Impl Op_pipe]
   \<and> Pre_Syscall \<notin> set (calls (snd (u_assuan_pipe test_platform (test_ctx 0) 0x3000 1 test_state)))
   \<and> Post_Syscall \<notin> set (calls (snd (u_assuan_pipe test_platform (test_ctx 0) 0x3000 1 test_state)))"
  by (simp add: u_assuan_pipe_def invoke_def test_ctx_def const_hooks_def test_platform_def
      test_state_def)

text \<open>
  C10. \<open>_assuan_close_inheritable\<close> is \<open>_assuan_close\<close>: the same test of the version, the
  same slot \<open>close\<close> or the same built-in \<open>__assuan_close\<close> between the same
  notifications, the same result and the same state.
\<close>

theorem close_inheritable_is_close:
  "u_assuan_close_inheritable P ctx fd s = u_assuan_close P ctx fd s"
  by (simp only: u_assuan_close_inheritable_def u_assuan_close_def)

text \<open>
  The table of a context is private to the library. Its version is 0 when no hooks are
  installed, and every table the merge has written has the library's version, 2:
\<close>

lemma merged_table_version:
  "2 \<le> version (assuan_system_hooks.truncate
      (u_assuan_system_hooks_copy dst (Some src) h dst))"
  by (simp add: assuan_system_hooks.truncate_def copy_dst_version
      ASSUAN_SYSTEM_HOOKS_VERSION_def)

text \<open>
  C4. On every context whose version is 0 or at least 2, \<open>_assuan_socket\<close> and
  \<open>_assuan_connect\<close> run the slot of the context's table, with the arguments of the
  call, exactly when the version is at least 2, and the built-in implementation
  otherwise (\<open>connect\<close> between the two notifications, \<open>socket\<close> without them); they
  return what the function they ran returned. The test in the source is
  \<open>version \<noteq> 0\<close>; it differs from \<open>version \<ge> 2\<close> only at version 1 and below 0, which no
  table of a context has.
\<close>

theorem socket_connect_hook_iff_version_2:
  assumes v: "version (system ctx) = 0 \<or> 2 \<le> version (system ctx)"
  shows "u_assuan_socket P ctx namespace style protocol s
      = (if 2 \<le> version (system ctx)
         then case socket (system ctx) (ctx_addr ctx) namespace style protocol (mach s) of
           (res, m) \<Rightarrow> (res, \<lparr>mach = m, calls = calls s @ [Installed_Hook Op_socket]\<rparr>)
         else case socket (uu_assuan P) (ctx_addr ctx) namespace style protocol (mach s) of
           (res, m) \<Rightarrow> (res, \<lparr>mach = m, calls = calls s @ [Default_Impl Op_socket]\<rparr>))
    \<and> u_assuan_connect P ctx sock addr len s
      = (if 2 \<le> version (system ctx)
         then case connect (system ctx) (ctx_addr ctx) sock addr len (mach s) of
           (res, m) \<Rightarrow> (res, \<lparr>mach = m, calls = calls s @ [Installed_Hook Op_connect]\<rparr>)
         else case connect (uu_assuan P) (ctx_addr ctx) sock addr len
                     (u_assuan_pre_syscall P (mach s)) of
           (res, m) \<Rightarrow> (res, \<lparr>mach = u_assuan_post_syscall P m,
             calls = calls s @ [Pre_Syscall, Default_Impl Op_connect, Post_Syscall]\<rparr>))"
proof (cases "version (system ctx) = 0")
  case True
  have "u_assuan_connect P ctx sock addr len s
      = (case connect (uu_assuan P) (ctx_addr ctx) sock addr len
                (u_assuan_pre_syscall P (mach s)) of
           (res, m) \<Rightarrow> (res, \<lparr>mach = u_assuan_post_syscall P m,
             calls = calls s @ [Pre_Syscall, Default_Impl Op_connect, Post_Syscall]\<rparr>))"
    using True by (simp only: u_assuan_connect_def bracket_eq simp_thms if_False)
  then show ?thesis
    using True by (simp add: u_assuan_socket_def invoke_def)
next
  case False
  with v have "2 \<le> version (system ctx)"
    by simp
  then show ?thesis
    using False by (simp add: u_assuan_socket_def u_assuan_connect_def invoke_def)
qed

lemma merged_ctx_version: "version (system merged_ctx) = 2"
  by (simp add: merged_ctx_def assuan_system_hooks.truncate_def copy_dst_version
      ASSUAN_SYSTEM_HOOKS_VERSION_def)

lemma merged_ctx_slots:
  "socket (system merged_ctx) = socket (test_store (Table 2))"
  "connect (system merged_ctx) = connect (test_store (Table 2))"
proof -
  have "v2_slots (u_assuan_system_hooks_copy (Table 9) (Some (Table 2)) test_store (Table 9))
      = v2_slots (test_store (Table 2))"
    by (simp add: copy_dst_v2_distinct test_store_sel)
  then show "socket (system merged_ctx) = socket (test_store (Table 2))"
    and "connect (system merged_ctx) = connect (test_store (Table 2))"
    by (simp_all add: v2_slots_def merged_ctx_def assuan_system_hooks.truncate_def)
qed

theorem socket_connect_hook_iff_version_2_witness:
  "version (system merged_ctx) = 2
   \<and> u_assuan_socket test_platform merged_ctx 1 1 0 test_state
       = (12, test_state\<lparr>calls := [Installed_Hook Op_socket]\<rparr>)
   \<and> u_assuan_connect test_platform merged_ctx 5 0x3000 16 test_state
       = (12, test_state\<lparr>calls := [Installed_Hook Op_connect]\<rparr>)
   \<and> version (system (test_ctx 0)) = 0
   \<and> u_assuan_socket test_platform (test_ctx 0) 1 1 0 test_state
       = (0, test_state\<lparr>calls := [Default_Impl Op_socket]\<rparr>)
   \<and> u_assuan_connect test_platform (test_ctx 0) 5 0x3000 16 test_state
       = (0, test_state\<lparr>calls := [Pre_Syscall, Default_Impl Op_connect, Post_Syscall]\<rparr>)"
proof -
  have m: "version (system merged_ctx) = 0 \<or> 2 \<le> version (system merged_ctx)"
    by (simp add: merged_ctx_version)
  have z: "version (system (test_ctx 0)) = 0 \<or> 2 \<le> version (system (test_ctx 0))"
    by (simp add: test_ctx_sel)
  show ?thesis
    using socket_connect_hook_iff_version_2 [OF m, of test_platform 1 1 0 test_state 5 "0x3000" 16]
      socket_connect_hook_iff_version_2 [OF z, of test_platform 1 1 0 test_state 5 "0x3000" 16]
    by (simp add: merged_ctx_version merged_ctx_slots test_ctx_sel test_store_def
        assuan_system_hooks.extend_def const_hooks_def test_platform_def test_state_def)
qed

end
